theory Spec2Isabelle
  imports Main
begin

section \<open>Sentinel-PQC scanner (scanner.py): data model\<close>

text \<open>
  Python text is modelled as \<open>string\<close>, one \<open>char\<close> for each character (code points
  below 256): the scanner compares node texts with ASCII words and counts their
  characters (\<open>len\<close>). \<open>node.text.decode('utf8')\<close> is taken to succeed, so a node
  carries its decoded text. Python integers are unbounded: \<open>int\<close>. Exceptions are values
  of \<open>error\<close>; a function that can raise returns \<open>error + 'a\<close> with \<open>Inl\<close> for the
  exception.
\<close>

datatype error = ValueError | OSError

text \<open>The five strings returned by \<open>_calculate_risk\<close>.\<close>

datatype risk = CRITICAL | HIGH | MEDIUM | LOW | UNKNOWN

text \<open>
  A tree-sitter node as the scanner uses it: \<open>node.type\<close>, \<open>node.text\<close> (decoded),
  the row of \<open>node.start_point\<close>, the field name under which the parent holds the node
  (if any), and \<open>node.children\<close>.
\<close>

datatype node =
  Node (ntype: string) (ntext: string) (start_row: nat) (nfield: "string option")
       (children: "node list")

text \<open>\<open>node.child_by_field_name(f)\<close>: the first child held under field \<open>f\<close>, or None.\<close>

definition child_by_field_name :: "node \<Rightarrow> string \<Rightarrow> node option" where
  "child_by_field_name n f = find (\<lambda>c. nfield c = Some f) (children n)"

subsection \<open>Built-ins of Python used by the scanner\<close>

definition is_digit :: "char \<Rightarrow> bool" where
  "is_digit c = (c \<in> set ''0123456789'')"

definition digit_value :: "char \<Rightarrow> nat" where
  "digit_value c = of_char c - 48"

text \<open>
  The whitespace that \<open>int\<close> drops around a number: the space, the code points 9 to 13
  and, in text that is not ASCII, the code points 0x85 and 0xA0 (they are turned into
  spaces before the number is read). The code points 0x1C to 0x1F are not dropped.
\<close>

definition is_space :: "char \<Rightarrow> bool" where
  "is_space c =
     (c = CHR '' '' \<or> (9 :: nat) \<le> of_char c \<and> (of_char c :: nat) \<le> 13
      \<or> (of_char c :: nat) = 133 \<or> (of_char c :: nat) = 160)"

definition strip :: "string \<Rightarrow> string" where
  "strip s = rev (dropWhile is_space (rev (dropWhile is_space s)))"

text \<open>
  The digits of a decimal literal after the sign: digits, with single underscores allowed
  between two digits. \<open>None\<close> when the text is not of that form.
\<close>

fun decimal_digits :: "string \<Rightarrow> nat \<Rightarrow> nat option" where
  "decimal_digits [] acc = Some acc"
| "decimal_digits (c # cs) acc =
     (if is_digit c then decimal_digits cs (acc * 10 + digit_value c)
      else if c = CHR ''_'' then
        (case cs of
           [] \<Rightarrow> None
         | d # ds \<Rightarrow> if is_digit d then decimal_digits cs acc else None)
      else None)"

text \<open>
  The interpreter's default limit on the number of digits that \<open>int\<close> converts
  (\<open>sys.int_info.default_max_str_digits\<close>); underscores and the sign do not count.
\<close>

definition max_str_digits :: nat where
  "max_str_digits = 4300"

definition unsigned_decimal :: "string \<Rightarrow> nat option" where
  "unsigned_decimal s =
     (case s of
        [] \<Rightarrow> None
      | c # cs \<Rightarrow>
          if is_digit c \<and> length (filter is_digit s) \<le> max_str_digits
          then decimal_digits s 0 else None)"

text \<open>
  \<open>int(text)\<close> with the default base 10: surrounding whitespace is dropped, one sign is
  allowed, then a decimal literal; every other text (\<open>0x800\<close>, \<open>0o17\<close>, \<open>0b1\<close>,
  \<open>10L\<close>, \<open>5j\<close>, \<open>1024_\<close>) raises ValueError, and so does a literal of more digits
  than the limit.
\<close>

definition py_int :: "string \<Rightarrow> error + int" where
  "py_int text =
     (case strip text of
        [] \<Rightarrow> Inl ValueError
      | c # cs \<Rightarrow>
          if c = CHR ''-'' then
            (case unsigned_decimal cs of None \<Rightarrow> Inl ValueError | Some n \<Rightarrow> Inr (- int n))
          else if c = CHR ''+'' then
            (case unsigned_decimal cs of None \<Rightarrow> Inl ValueError | Some n \<Rightarrow> Inr (int n))
          else
            (case unsigned_decimal (c # cs) of None \<Rightarrow> Inl ValueError | Some n \<Rightarrow> Inr (int n)))"

text \<open>\<open>str.upper()\<close> on ASCII text.\<close>

definition upper_char :: "char \<Rightarrow> char" where
  "upper_char c =
     (if (97 :: nat) \<le> of_char c \<and> (of_char c :: nat) \<le> 122
      then char_of (of_char c - (32 :: nat)) else c)"

definition upper :: "string \<Rightarrow> string" where
  "upper s = map upper_char s"

text \<open>\<open>text.startswith("b")\<close>.\<close>

definition startswith_b :: "string \<Rightarrow> bool" where
  "startswith_b s = (case s of [] \<Rightarrow> False | c # _ \<Rightarrow> c = CHR ''b'')"

section \<open>The risk classifier\<close>

text \<open>
  \<open>_calculate_risk(algo, bits)\<close>. \<open>bits\<close> is \<open>None\<close> or an integer; \<open>not bits\<close> holds
  for \<open>None\<close> and for 0.
\<close>

definition calculate_risk :: "string \<Rightarrow> int option \<Rightarrow> risk" where
  "calculate_risk algo0 bits =
     (let algo = upper algo0 in
      case bits of
        None \<Rightarrow> UNKNOWN
      | Some b \<Rightarrow>
          if b = 0 then UNKNOWN
          else if algo \<in> set [''RSA'', ''DSA''] then
            (if b < 2048 then CRITICAL
             else if b < 4096 then HIGH
             else MEDIUM)
          else if algo = ''AES'' then
            (if b = 128 then MEDIUM
             else if b \<in> set [192, 256] then LOW
             else UNKNOWN)
          else if algo \<in> set [''EC'', ''ECC'', ''ECDSA'', ''ECDH''] then HIGH
          else if algo \<in> set [''DES'', ''3DES'', ''TRIPLEDES''] then CRITICAL
          else HIGH)"

section \<open>The catalog and the alias index\<close>

record target_config =
  methods :: "string list"
  arg_keys :: "string list"
  aliases :: "string list"

text \<open>
  \<open>self.TARGETS\<close> is a dict; its items are kept in insertion order, which is the order
  the alias loop of \<open>__init__\<close> visits them in. Lookup is \<open>map_of\<close>.
\<close>

type_synonym catalog = "(string \<times> target_config) list"

definition TARGETS :: catalog where
  "TARGETS =
     [(''RSA'', \<lparr>methods = [''generate'', ''construct'', ''new_key''],
                arg_keys = [''bits'', ''size'', ''key_size''],
                aliases = [''RSA'', ''PyRSA'', ''rsa'', ''_RSA'']\<rparr>),
      (''DSA'', \<lparr>methods = [''generate'', ''construct''],
                arg_keys = [''bits'', ''key_size''],
                aliases = [''DSA'', ''dsa'']\<rparr>),
      (''AES'', \<lparr>methods = [''new'', ''encrypt'', ''decrypt''],
                arg_keys = [''key'', ''bits'', ''key_size''],
                aliases = [''AES'', ''Cipher'', ''aes'']\<rparr>),
      (''EC'', \<lparr>methods = [''generate'', ''generate_private_key'', ''new_key''],
               arg_keys = [''curve''],
               aliases = [''EC'', ''ECC'', ''ECDSA'', ''ECDH'', ''ec'']\<rparr>),
      (''DES'', \<lparr>methods = [''new''],
                arg_keys = [''key''],
                aliases = [''DES'', ''DES3'', ''TripleDES'']\<rparr>)]"

record scanner =
  targets :: catalog
  alias_map :: "string \<rightharpoonup> string"

text \<open>The inner loop of \<open>__init__\<close>: \<open>self._alias_map[alias] = canonical\<close>.\<close>

fun add_aliases :: "string \<Rightarrow> string list \<Rightarrow> (string \<rightharpoonup> string) \<Rightarrow> (string \<rightharpoonup> string)" where
  "add_aliases canonical [] m = m"
| "add_aliases canonical (alias # rest) m = add_aliases canonical rest (m(alias \<mapsto> canonical))"

text \<open>The outer loop over \<open>self.TARGETS.items()\<close>.\<close>

fun build_alias_map :: "catalog \<Rightarrow> (string \<rightharpoonup> string) \<Rightarrow> (string \<rightharpoonup> string)" where
  "build_alias_map [] m = m"
| "build_alias_map ((canonical, config) # rest) m =
     build_alias_map rest (add_aliases canonical (aliases config) m)"

text \<open>
  \<open>PQCScanner.__init__\<close>, with the catalog as a parameter: \<open>new_scanner\<close> is the
  object it sets up. The alias loop has no \<open>raise\<close> and no check, so the result is
  always \<open>Inr\<close>.
\<close>

definition new_scanner :: "catalog \<Rightarrow> scanner" where
  "new_scanner cat = \<lparr>targets = cat, alias_map = build_alias_map cat Map.empty\<rparr>"

definition PQCScanner_init_with :: "catalog \<Rightarrow> error + scanner" where
  "PQCScanner_init_with cat = Inr (new_scanner cat)"

definition PQCScanner_init :: "error + scanner" where
  "PQCScanner_init = PQCScanner_init_with TARGETS"

definition resolve_alias :: "scanner \<Rightarrow> string \<Rightarrow> string" where
  "resolve_alias sc name = (case alias_map sc name of None \<Rightarrow> name | Some canonical \<Rightarrow> canonical)"

section \<open>Key-size extraction\<close>

text \<open>
  The estimate for a string value of a recognized keyword:
  \<open>len(key_text) - 3 if key_text.startswith("b") else len(key_text) - 2\<close>, times 8.
\<close>

definition string_key_size :: "string \<Rightarrow> int" where
  "string_key_size key_text =
     (let key_bytes = (if startswith_b key_text then int (length key_text) - 3
                       else int (length key_text) - 2)
      in key_bytes * 8)"

text \<open>
  The loop of \<open>_extract_key_size\<close> over \<open>args_node.children\<close>. \<open>key_size\<close> starts at 0,
  each \<open>break\<close> returns the value just assigned, and the end of the loop returns 0.
\<close>

fun extract_loop :: "string list \<Rightarrow> node list \<Rightarrow> error + int" where
  "extract_loop keys [] = Inr 0"
| "extract_loop keys (child # rest) =
     (if ntype child = ''integer'' then
        (case py_int (ntext child) of
           Inl e \<Rightarrow> Inl e
         | Inr val \<Rightarrow>
             if val \<ge> 128 \<and> val \<noteq> 65537 then Inr val
             else extract_loop keys rest)
      else if ntype child = ''keyword_argument'' then
        (case child_by_field_name child ''name'' of
           None \<Rightarrow> extract_loop keys rest
         | Some arg_name_node \<Rightarrow>
             (case child_by_field_name child ''value'' of
                None \<Rightarrow> extract_loop keys rest
              | Some arg_val_node \<Rightarrow>
                  if ntext arg_name_node \<in> set keys then
                    (if ntype arg_val_node = ''integer'' then py_int (ntext arg_val_node)
                     else if ntype arg_val_node \<in> set [''string'', ''binary_string'']
                       then Inr (string_key_size (ntext arg_val_node))
                     else extract_loop keys rest)
                  else extract_loop keys rest))
      else extract_loop keys rest)"

definition extract_key_size :: "node option \<Rightarrow> string list \<Rightarrow> error + int" where
  "extract_key_size args_node keys =
     (case args_node of
        None \<Rightarrow> Inr 0
      | Some a \<Rightarrow> extract_loop keys (children a))"

section \<open>Findings and the tree walk\<close>

text \<open>
  The \<open>bits\<close> entry of a finding: an integer, or the string "Unknown". The keys of the
  finding dict (\<open>file\<close>, \<open>line\<close>, \<open>algo\<close>, \<open>method\<close>, \<open>bits\<close>, \<open>risk\<close>,
  \<open>context\<close>) are the fields below.
\<close>

datatype bits_value = Bits int | Unknown

record finding =
  f_file :: string
  f_line :: nat
  f_algo :: string
  f_method :: string
  f_bits :: bits_value
  f_risk :: risk
  f_context :: string

text \<open>
  The body of \<open>_find_calls\<close> for one node, before the recursion: the findings it appends
  (none or one), or the exception raised by the key-size extraction.
\<close>

definition match_call :: "scanner \<Rightarrow> node \<Rightarrow> error + finding list" where
  "match_call sc n =
     (if ntype n = ''call'' then
        (let func = child_by_field_name n ''function'';
             args = child_by_field_name n ''arguments''
         in case func of
              None \<Rightarrow> Inr []
            | Some f \<Rightarrow>
                if ntype f = ''attribute'' then
                  (case child_by_field_name f ''object'' of
                     None \<Rightarrow> Inr []
                   | Some obj_node \<Rightarrow>
                       (case child_by_field_name f ''attribute'' of
                          None \<Rightarrow> Inr []
                        | Some method_node \<Rightarrow>
                            (let obj_name = ntext obj_node;
                                 method_name = ntext method_node;
                                 canonical_name = resolve_alias sc obj_name
                             in case map_of (targets sc) canonical_name of
                                  None \<Rightarrow> Inr []
                                | Some target_config \<Rightarrow>
                                    if method_name \<in> set (methods target_config) then
                                      (case extract_key_size args (arg_keys target_config) of
                                         Inl e \<Rightarrow> Inl e
                                       | Inr key_size \<Rightarrow>
                                           Inr [\<lparr>f_file = '''',
                                                 f_line = start_row n + 1,
                                                 f_algo = canonical_name,
                                                 f_method = method_name,
                                                 f_bits = (if key_size \<noteq> 0 then Bits key_size
                                                         else Unknown),
                                                 f_risk = calculate_risk canonical_name (Some key_size),
                                                 f_context = take 100 (ntext n)\<rparr>])
                                    else Inr [])))
                else Inr [])
      else Inr [])"

text \<open>
  \<open>_find_calls(node, source_code, results)\<close>: the node itself, then every child in
  order; \<open>results\<close> is the list being appended to. An exception ends the walk.
\<close>

fun find_calls :: "scanner \<Rightarrow> node \<Rightarrow> finding list \<Rightarrow> error + finding list"
  and find_calls_children :: "scanner \<Rightarrow> node list \<Rightarrow> finding list \<Rightarrow> error + finding list"
where
  "find_calls sc (Node t x r f cs) results =
     (case match_call sc (Node t x r f cs) of
        Inl e \<Rightarrow> Inl e
      | Inr found \<Rightarrow> find_calls_children sc cs (results @ found))"
| "find_calls_children sc [] results = Inr results"
| "find_calls_children sc (child # rest) results =
     (case find_calls sc child results of
        Inl e \<Rightarrow> Inl e
      | Inr results' \<Rightarrow> find_calls_children sc rest results')"

text \<open>
  \<open>scan_file(filepath)\<close>. The file system, the parser and \<open>os.path.normpath\<close> are
  outside the scanner: \<open>src\<close> is the outcome of opening and reading the file, \<open>parse\<close>
  the tree-sitter parser.
\<close>

definition scan_file ::
  "scanner \<Rightarrow> (string \<Rightarrow> node) \<Rightarrow> (string \<Rightarrow> string) \<Rightarrow> string \<Rightarrow> error + string
     \<Rightarrow> error + finding list" where
  "scan_file sc parse normpath filepath src =
     (case src of
        Inl e \<Rightarrow> Inr []
      | Inr source_code \<Rightarrow>
          (case find_calls sc (parse source_code) [] of
             Inl e \<Rightarrow> Inl e
           | Inr results \<Rightarrow> Inr (map (\<lambda>result. result\<lparr>f_file := normpath filepath\<rparr>) results)))"

section \<open>The asset-inventory export\<close>

text \<open>\<open>str(n)\<close> for an integer: its decimal digits, with a minus sign when negative.\<close>

definition digit_char :: "nat \<Rightarrow> char" where
  "digit_char d = ''0123456789'' ! d"

fun nat_digits :: "nat \<Rightarrow> string" where
  "nat_digits n =
     (if n < 10 then [digit_char n] else nat_digits (n div 10) @ [digit_char (n mod 10)])"

declare nat_digits.simps [simp del]

definition str_int :: "int \<Rightarrow> string" where
  "str_int i = (if i < 0 then CHR ''-'' # nat_digits (nat (- i)) else nat_digits (nat i))"

text \<open>\<open>str(finding["bits"])\<close>.\<close>

fun str_bits :: "bits_value \<Rightarrow> string" where
  "str_bits (Bits n) = str_int n"
| "str_bits Unknown = ''Unknown''"

fun risk_text :: "risk \<Rightarrow> string" where
  "risk_text CRITICAL = ''CRITICAL''"
| "risk_text HIGH = ''HIGH''"
| "risk_text MEDIUM = ''MEDIUM''"
| "risk_text LOW = ''LOW''"
| "risk_text UNKNOWN = ''UNKNOWN''"

record occurrence =
  location :: string
  occ_line :: nat
  occ_context :: string

record property =
  prop_name :: string
  prop_value :: string

record asset =
  asset_type :: string
  asset_name :: string
  occurrences :: "occurrence list"
  properties :: "property list"

record tool =
  vendor :: string
  tool_name :: string
  tool_version :: string

record cbom =
  bomFormat :: string
  specVersion :: string
  version :: int
  metadata_tool :: tool
  cryptoAssets :: "asset list"

text \<open>The dict built for one finding in the loop of \<open>generate_cbom\<close>.\<close>

definition asset_of :: "finding \<Rightarrow> asset" where
  "asset_of fd =
     \<lparr>asset_type = ''algorithm'',
      asset_name = f_algo fd,
      occurrences = [\<lparr>location = f_file fd, occ_line = f_line fd, occ_context = f_context fd\<rparr>],
      properties = [\<lparr>prop_name = ''keySize'', prop_value = str_bits (f_bits fd)\<rparr>,
                    \<lparr>prop_name = ''method'', prop_value = f_method fd\<rparr>,
                    \<lparr>prop_name = ''quantumRisk'', prop_value = risk_text (f_risk fd)\<rparr>]\<rparr>"

text \<open>The loop \<open>for finding in findings: ... cbom["cryptoAssets"].append(asset)\<close>.\<close>

fun append_assets :: "finding list \<Rightarrow> asset list \<Rightarrow> asset list" where
  "append_assets [] acc = acc"
| "append_assets (fd # rest) acc = append_assets rest (acc @ [asset_of fd])"

text \<open>
  \<open>generate_cbom(findings, output_path)\<close>. Writing the file is outside the scanner:
  \<open>written\<close> is \<open>None\<close> when no \<open>output_path\<close> is given, and otherwise the outcome of
  opening and writing it.
\<close>

definition generate_cbom :: "finding list \<Rightarrow> (error + unit) option \<Rightarrow> error + cbom" where
  "generate_cbom findings written =
     (let c = \<lparr>bomFormat = ''CycloneDX'',
               specVersion = ''1.6'',
               version = 1,
               metadata_tool = \<lparr>vendor = ''Sentinel-PQC'',
                                tool_name = ''Cryptographic Scanner'',
                                tool_version = ''1.0.0''\<rparr>,
               cryptoAssets = append_assets findings []\<rparr>
      in case written of
           Some (Inl e) \<Rightarrow> Inl e
         | _ \<Rightarrow> Inr c)"

section \<open>Syntax trees of the example programs\<close>

text \<open>
  The parser is a library; its output for the small programs of the specification is
  written out here: a call \<open>obj.meth(args)\<close> is a \<open>call\<close> node with an \<open>attribute\<close>
  node under the field \<open>function\<close> and an \<open>argument_list\<close> node under \<open>arguments\<close>,
  whose children are the parentheses, the arguments and the commas between them. A
  string literal is a \<open>string\<close> node with the children \<open>string_start\<close> (prefix and
  opening quote), \<open>string_content\<close> and \<open>string_end\<close> (closing quote).
\<close>

definition leaf :: "string \<Rightarrow> string \<Rightarrow> nat \<Rightarrow> string option \<Rightarrow> node" where
  "leaf t x r f = Node t x r f []"

definition method_call ::
  "string \<Rightarrow> string \<Rightarrow> string \<Rightarrow> node list \<Rightarrow> nat \<Rightarrow> string option \<Rightarrow> node" where
  "method_call obj meth args_text args r f =
     Node ''call'' (obj @ ''.'' @ meth @ args_text) r f
       [Node ''attribute'' (obj @ ''.'' @ meth) r (Some ''function'')
          [leaf ''identifier'' obj r (Some ''object''),
           leaf ''.'' ''.'' r None,
           leaf ''identifier'' meth r (Some ''attribute'')],
        Node ''argument_list'' args_text r (Some ''arguments'')
          ([leaf ''('' ''('' r None] @ args @ [leaf '')'' '')'' r None])]"

definition keyword_argument :: "string \<Rightarrow> node \<Rightarrow> nat \<Rightarrow> node" where
  "keyword_argument name val r =
     Node ''keyword_argument'' (name @ ''='' @ ntext val) r None
       [leaf ''identifier'' name r (Some ''name''), leaf ''='' ''='' r None, val]"

definition argument_list :: "string \<Rightarrow> node list \<Rightarrow> nat \<Rightarrow> node" where
  "argument_list args_text args r =
     Node ''argument_list'' args_text r (Some ''arguments'')
       ([leaf ''('' ''('' r None] @ args @ [leaf '')'' '')'' r None])"

definition string_literal ::
  "string \<Rightarrow> string \<Rightarrow> string \<Rightarrow> nat \<Rightarrow> string option \<Rightarrow> node" where
  "string_literal start content quote r f =
     Node ''string'' (start @ content @ quote) r f
       [leaf ''string_start'' start r None,
        leaf ''string_content'' content r None,
        leaf ''string_end'' quote r None]"

definition assignment :: "string \<Rightarrow> node \<Rightarrow> nat \<Rightarrow> node" where
  "assignment name rhs r =
     Node ''expression_statement'' (name @ '' = '' @ ntext rhs) r None
       [Node ''assignment'' (name @ '' = '' @ ntext rhs) r None
          [leaf ''identifier'' name r (Some ''left''), leaf ''='' ''='' r None, rhs]]"

definition module :: "string \<Rightarrow> node list \<Rightarrow> node" where
  "module x stmts = Node ''module'' x 0 None stmts"

text \<open>A parser that is known on the listed sources only (an empty module elsewhere).\<close>

definition parser_of :: "(string \<times> node) list \<Rightarrow> string \<Rightarrow> node" where
  "parser_of table source_code =
     (case map_of table source_code of
        Some tree \<Rightarrow> tree
      | None \<Rightarrow> module source_code [])"

text \<open>
  The file of the end-to-end scenario: \<open>weak = RSA.generate(1024)\<close> on the first line
  (row 0) and \<open>strong = AES.new(b'32_byte_key_..............32', MODE)\<close> on the second
  (row 1), and the tree the parser gives for it.
\<close>

definition end_to_end_source :: string where
  "end_to_end_source =
     ''weak = RSA.generate(1024)'' @ [CHR 0x0A] @
     ''strong = AES.new(b'' @ [CHR 0x27] @ ''32_byte_key_..............32'' @ [CHR 0x27] @
     '', MODE)'' @ [CHR 0x0A]"

definition key_literal_text :: string where
  "key_literal_text = ''b'' @ [CHR 0x27] @ ''32_byte_key_..............32'' @ [CHR 0x27]"

definition key_literal :: "nat \<Rightarrow> string option \<Rightarrow> node" where
  "key_literal r f =
     string_literal (''b'' @ [CHR 0x27]) ''32_byte_key_..............32'' [CHR 0x27] r f"

definition end_to_end_tree :: node where
  "end_to_end_tree =
     module end_to_end_source
       [assignment ''weak''
          (method_call ''RSA'' ''generate'' ''(1024)''
             [leaf ''integer'' ''1024'' 0 None] 0 (Some ''right'')) 0,
        assignment ''strong''
          (method_call ''AES'' ''new'' (''('' @ key_literal_text @ '', MODE)'')
             [key_literal 1 None,
              leaf '','' '','' 1 None,
              leaf ''identifier'' ''MODE'' 1 None] 1 (Some ''right'')) 1]"

text \<open>A catalog in which the alias \<open>Crypto\<close> is listed by two entries.\<close>

definition duplicate_alias_catalog :: catalog where
  "duplicate_alias_catalog =
     [(''RSA'', \<lparr>methods = [''generate''], arg_keys = [''bits''],
                aliases = [''RSA'', ''Crypto'']\<rparr>),
      (''DSA'', \<lparr>methods = [''generate''], arg_keys = [''bits''],
                aliases = [''DSA'', ''Crypto'']\<rparr>)]"

text \<open>Two findings of the same algorithm.\<close>

definition two_rsa_findings :: "finding list" where
  "two_rsa_findings =
     [\<lparr>f_file = ''a.py'', f_line = 1, f_algo = ''RSA'', f_method = ''generate'',
       f_bits = Bits 1024, f_risk = CRITICAL, f_context = ''RSA.generate(1024)''\<rparr>,
      \<lparr>f_file = ''a.py'', f_line = 2, f_algo = ''RSA'', f_method = ''generate'',
       f_bits = Bits 4096, f_risk = MEDIUM, f_context = ''RSA.generate(4096)''\<rparr>]"

text \<open>The asset inventory that the loop builds from them.\<close>

definition two_rsa_cbom :: cbom where
  "two_rsa_cbom =
     \<lparr>bomFormat = ''CycloneDX'', specVersion = ''1.6'', version = 1,
      metadata_tool = \<lparr>vendor = ''Sentinel-PQC'', tool_name = ''Cryptographic Scanner'',
                       tool_version = ''1.0.0''\<rparr>,
      cryptoAssets =
        [\<lparr>asset_type = ''algorithm'', asset_name = ''RSA'',
          occurrences = [\<lparr>location = ''a.py'', occ_line = 1,
                           occ_context = ''RSA.generate(1024)''\<rparr>],
          properties = [\<lparr>prop_name = ''keySize'', prop_value = ''1024''\<rparr>,
                        \<lparr>prop_name = ''method'', prop_value = ''generate''\<rparr>,
                        \<lparr>prop_name = ''quantumRisk'', prop_value = ''CRITICAL''\<rparr>]\<rparr>,
         \<lparr>asset_type = ''algorithm'', asset_name = ''RSA'',
          occurrences = [\<lparr>location = ''a.py'', occ_line = 2,
                           occ_context = ''RSA.generate(4096)''\<rparr>],
          properties = [\<lparr>prop_name = ''keySize'', prop_value = ''4096''\<rparr>,
                        \<lparr>prop_name = ''method'', prop_value = ''generate''\<rparr>,
                        \<lparr>prop_name = ''quantumRisk'', prop_value = ''MEDIUM''\<rparr>]\<rparr>]\<rparr>"

text \<open>\<open>key = RSA.generate(0x800)\<close>: the key size written as a hexadecimal literal.\<close>

definition hex_literal_source :: string where
  "hex_literal_source = ''key = RSA.generate(0x800)''"

definition hex_literal_tree :: node where
  "hex_literal_tree =
     module hex_literal_source
       [assignment ''key''
          (method_call ''RSA'' ''generate'' ''(0x800)''
             [leaf ''integer'' ''0x800'' 0 None] 0 (Some ''right'')) 0]"

text \<open>\<open>RSA.generate(65537)\<close> on row \<open>r\<close>.\<close>

definition exponent_only_call :: "nat \<Rightarrow> node" where
  "exponent_only_call r =
     method_call ''RSA'' ''generate'' ''(65537)'' [leaf ''integer'' ''65537'' r None] r None"

text \<open>
  The argument lists of \<open>RSA.generate(2048)\<close> and \<open>RSA.generate(0x800)\<close>: the same key
  size, written in decimal and in hexadecimal.
\<close>

definition decimal_positional_arguments :: node where
  "decimal_positional_arguments = argument_list ''(2048)'' [leaf ''integer'' ''2048'' 0 None] 0"

definition hex_positional_arguments :: node where
  "hex_positional_arguments = argument_list ''(0x800)'' [leaf ''integer'' ''0x800'' 0 None] 0"

text \<open>The argument lists of \<open>RSA.generate(bits=2048)\<close> and \<open>RSA.generate(bits=0x800)\<close>.\<close>

definition decimal_keyword_arguments :: node where
  "decimal_keyword_arguments =
     argument_list ''(bits=2048)''
       [keyword_argument ''bits'' (leaf ''integer'' ''2048'' 0 (Some ''value'')) 0] 0"

definition hex_keyword_arguments :: node where
  "hex_keyword_arguments =
     argument_list ''(bits=0x800)''
       [keyword_argument ''bits'' (leaf ''integer'' ''0x800'' 0 (Some ''value'')) 0] 0"

text \<open>
  The argument lists of \<open>AES.new(key=b'Sixteen byte key')\<close> and of
  \<open>AES.new(key=B'Sixteen byte key')\<close>: the same 16-byte byte literal, with the prefix in
  lower and in upper case.
\<close>

definition lower_prefix_key_arguments :: node where
  "lower_prefix_key_arguments =
     argument_list (''(key=b'' @ [CHR 0x27] @ ''Sixteen byte key'' @ [CHR 0x27] @ '')'')
       [keyword_argument ''key''
          (string_literal (''b'' @ [CHR 0x27]) ''Sixteen byte key'' [CHR 0x27] 0
             (Some ''value'')) 0] 0"

definition upper_prefix_key_arguments :: node where
  "upper_prefix_key_arguments =
     argument_list (''(key=B'' @ [CHR 0x27] @ ''Sixteen byte key'' @ [CHR 0x27] @ '')'')
       [keyword_argument ''key''
          (string_literal (''B'' @ [CHR 0x27]) ''Sixteen byte key'' [CHR 0x27] 0
             (Some ''value'')) 0] 0"

text \<open>
  The argument lists of \<open>AES.new(b'32_byte_key_..............32', 16)\<close> and of
  \<open>AES.new(b'32_byte_key_..............32', 0x10)\<close>: a positional byte literal, then the
  integer 16 in decimal and in hexadecimal.
\<close>

definition string_then_decimal_arguments :: node where
  "string_then_decimal_arguments =
     argument_list (''('' @ key_literal_text @ '', 16)'')
       [key_literal 0 None, leaf '','' '','' 0 None, leaf ''integer'' ''16'' 0 None] 0"

definition string_then_hex_arguments :: node where
  "string_then_hex_arguments =
     argument_list (''('' @ key_literal_text @ '', 0x10)'')
       [key_literal 0 None, leaf '','' '','' 0 None, leaf ''integer'' ''0x10'' 0 None] 0"

section \<open>Properties of the risk classifier\<close>

lemma upper_EC: "upper ''EC'' = ''EC''"
  by (simp add: upper_def upper_char_def)

lemma upper_DES: "upper ''DES'' = ''DES''"
  by (simp add: upper_def upper_char_def)

lemma upper_RSA: "upper ''RSA'' = ''RSA''"
  by (simp add: upper_def upper_char_def)

lemma upper_AES: "upper ''AES'' = ''AES''"
  by (simp add: upper_def upper_char_def)

text \<open>
  C5, as stated, fails: with key size zero the classifier answers UNKNOWN for the
  elliptic-curve family and for the DES family, because the test for a missing or zero
  key size comes first.
\<close>

theorem calculate_risk_zero_size_not_family_tier:
  "calculate_risk ''EC'' (Some 0) \<noteq> HIGH \<and> calculate_risk ''DES'' (Some 0) \<noteq> CRITICAL
   \<and> calculate_risk ''EC'' None \<noteq> HIGH \<and> calculate_risk ''DES'' None \<noteq> CRITICAL"
  by (simp add: calculate_risk_def)

text \<open>
  C5 (amended): for every key size that is present and not zero, the classifier yields
  HIGH for the elliptic-curve family (EC, ECC, ECDSA, ECDH, in any letter case) and
  CRITICAL for the DES family (DES, 3DES, TRIPLEDES); for a missing or zero key size it
  yields UNKNOWN for both families.
\<close>

theorem calculate_risk_ec_des_families:
  "(upper algo \<in> {''EC'', ''ECC'', ''ECDSA'', ''ECDH''} \<longrightarrow>
      calculate_risk algo bits = (if bits = None \<or> bits = Some 0 then UNKNOWN else HIGH)) \<and>
   (upper algo \<in> {''DES'', ''3DES'', ''TRIPLEDES''} \<longrightarrow>
      calculate_risk algo bits = (if bits = None \<or> bits = Some 0 then UNKNOWN else CRITICAL))"
  by (cases bits) (auto simp: calculate_risk_def)

theorem calculate_risk_ec_des_families_witness:
  "upper ''EC'' \<in> {''EC'', ''ECC'', ''ECDSA'', ''ECDH''} \<and>
   calculate_risk ''EC'' (Some 256) = HIGH \<and>
   upper ''DES'' \<in> {''DES'', ''3DES'', ''TRIPLEDES''} \<and>
   calculate_risk ''DES'' (Some 64) = CRITICAL"
  using calculate_risk_ec_des_families [of "''EC''" "Some 256"]
        calculate_risk_ec_des_families [of "''DES''" "Some 64"]
  by (simp add: upper_EC upper_DES)

text \<open>
  C6: the classifier follows the ordered decision procedure: a missing or zero key size
  yields UNKNOWN whatever the algorithm; otherwise RSA and DSA yield CRITICAL below 2048,
  HIGH below 4096 and MEDIUM from 4096 on (never LOW); AES yields MEDIUM at 128, LOW at
  192 and 256 and UNKNOWN at every other size; and a name outside the RSA/DSA, AES,
  elliptic-curve and DES families yields HIGH.
\<close>

theorem calculate_risk_decision_procedure:
  "(bits = None \<or> bits = Some 0 \<longrightarrow> calculate_risk algo bits = UNKNOWN) \<and>
   (upper algo \<in> {''RSA'', ''DSA''} \<and> b \<noteq> 0 \<longrightarrow>
      calculate_risk algo (Some b) =
        (if b < 2048 then CRITICAL else if b < 4096 then HIGH else MEDIUM) \<and>
      calculate_risk algo (Some b) \<noteq> LOW) \<and>
   (upper algo = ''AES'' \<and> b \<noteq> 0 \<longrightarrow>
      calculate_risk algo (Some b) =
        (if b = 128 then MEDIUM else if b = 192 \<or> b = 256 then LOW else UNKNOWN)) \<and>
   (upper algo \<notin> {''RSA'', ''DSA'', ''AES'', ''EC'', ''ECC'', ''ECDSA'', ''ECDH'',
                   ''DES'', ''3DES'', ''TRIPLEDES''} \<and> b \<noteq> 0 \<longrightarrow>
      calculate_risk algo (Some b) = HIGH)"
  by (cases bits) (auto simp: calculate_risk_def)

theorem calculate_risk_decision_procedure_witness:
  "calculate_risk ''RSA'' (Some 0) = UNKNOWN \<and>
   calculate_risk ''RSA'' (Some 1024) = CRITICAL \<and>
   calculate_risk ''RSA'' (Some 2048) = HIGH \<and>
   calculate_risk ''RSA'' (Some 4096) = MEDIUM \<and>
   calculate_risk ''AES'' (Some 128) = MEDIUM \<and>
   calculate_risk ''AES'' (Some 256) = LOW \<and>
   calculate_risk ''AES'' (Some 100) = UNKNOWN \<and>
   calculate_risk ''X'' (Some 100) = HIGH"
  using calculate_risk_decision_procedure [of "Some 0" "''RSA''" 1024]
        calculate_risk_decision_procedure [of "Some 0" "''RSA''" 2048]
        calculate_risk_decision_procedure [of "Some 0" "''RSA''" 4096]
        calculate_risk_decision_procedure [of "Some 0" "''AES''" 128]
        calculate_risk_decision_procedure [of "Some 0" "''AES''" 256]
        calculate_risk_decision_procedure [of "Some 0" "''AES''" 100]
        calculate_risk_decision_procedure [of "Some 0" "''X''" 100]
  by (simp add: upper_RSA upper_AES upper_def upper_char_def)

section \<open>Evaluation of the examples\<close>

lemmas tree_defs = module_def assignment_def method_call_def leaf_def keyword_argument_def
  string_literal_def argument_list_def key_literal_def

lemmas int_defs = py_int_def strip_def is_space_def unsigned_decimal_def is_digit_def
  digit_value_def max_str_digits_def

lemmas walk_defs = match_call_def child_by_field_name_def resolve_alias_def
  extract_key_size_def

lemma default_alias_map:
  "alias_map (new_scanner TARGETS) ''RSA'' = Some ''RSA''"
  "alias_map (new_scanner TARGETS) ''AES'' = Some ''AES''"
  by (simp_all add: new_scanner_def TARGETS_def)

lemma default_targets:
  "map_of (targets (new_scanner TARGETS)) ''RSA'' =
     Some \<lparr>methods = [''generate'', ''construct'', ''new_key''],
           arg_keys = [''bits'', ''size'', ''key_size''],
           aliases = [''RSA'', ''PyRSA'', ''rsa'', ''_RSA'']\<rparr>"
  "map_of (targets (new_scanner TARGETS)) ''AES'' =
     Some \<lparr>methods = [''new'', ''encrypt'', ''decrypt''],
           arg_keys = [''key'', ''bits'', ''key_size''],
           aliases = [''AES'', ''Cipher'', ''aes'']\<rparr>"
  by (simp_all add: new_scanner_def TARGETS_def)

lemma py_int_examples:
  "py_int ''1024'' = Inr 1024"
  "py_int ''2048'' = Inr 2048"
  "py_int ''65537'' = Inr 65537"
  "py_int ''16'' = Inr 16"
  "py_int ''0x800'' = Inl ValueError"
  "py_int ''0x10'' = Inl ValueError"
  by (simp_all add: int_defs)

lemma PQCScanner_init_value: "PQCScanner_init = Inr (new_scanner TARGETS)"
  by (simp add: PQCScanner_init_def PQCScanner_init_with_def)

lemma find_calls_end_to_end:
  "find_calls (new_scanner TARGETS) end_to_end_tree [] =
     Inr [\<lparr>f_file = [], f_line = 1, f_algo = ''RSA'', f_method = ''generate'',
            f_bits = Bits 1024, f_risk = CRITICAL, f_context = ''RSA.generate(1024)''\<rparr>,
          \<lparr>f_file = [], f_line = 2, f_algo = ''AES'', f_method = ''new'',
            f_bits = Unknown, f_risk = UNKNOWN,
            f_context = ''AES.new('' @ key_literal_text @ '', MODE)''\<rparr>]"
  by (simp add: end_to_end_tree_def tree_defs walk_defs default_alias_map default_targets
        py_int_examples calculate_risk_def upper_RSA upper_AES key_literal_text_def)

lemma find_calls_exponent_only:
  "find_calls (new_scanner TARGETS) (exponent_only_call r) [] =
     Inr [\<lparr>f_file = '''', f_line = r + 1, f_algo = ''RSA'', f_method = ''generate'',
            f_bits = Unknown, f_risk = UNKNOWN, f_context = ''RSA.generate(65537)''\<rparr>]"
  by (simp add: exponent_only_call_def tree_defs walk_defs default_alias_map default_targets
        py_int_examples calculate_risk_def upper_RSA)

lemma find_calls_hex_literal:
  "find_calls (new_scanner TARGETS) hex_literal_tree [] = Inl ValueError"
  by (simp add: hex_literal_tree_def tree_defs walk_defs default_alias_map default_targets
        py_int_examples)

section \<open>The end-to-end scenario\<close>

text \<open>
  C1, as stated, fails: on the two-statement file the finding for \<open>AES.new\<close> has bits
  "Unknown" and risk UNKNOWN, not 256 and LOW. The key is a positional byte literal, and
  the extraction loop reads positional integers and recognized keywords only.
\<close>

theorem end_to_end_aes_finding_is_unknown:
  "scan_file (new_scanner TARGETS) (parser_of [(end_to_end_source, end_to_end_tree)]) id
     ''sample.py'' (Inr end_to_end_source) =
   Inr [\<lparr>f_file = ''sample.py'', f_line = 1, f_algo = ''RSA'', f_method = ''generate'',
          f_bits = Bits 1024, f_risk = CRITICAL, f_context = ''RSA.generate(1024)''\<rparr>,
        \<lparr>f_file = ''sample.py'', f_line = 2, f_algo = ''AES'', f_method = ''new'',
          f_bits = Unknown, f_risk = UNKNOWN,
          f_context = ''AES.new('' @ key_literal_text @ '', MODE)''\<rparr>]"
  by (simp add: scan_file_def parser_of_def find_calls_end_to_end)

text \<open>
  C1 (amended): for every input file whose source is the statement
  \<open>weak = RSA.generate(1024)\<close> followed by
  \<open>strong = AES.new(b'32_byte_key_..............32', MODE)\<close>, \<open>scan_file\<close> returns
  exactly two findings: algorithm RSA, bits 1024, risk CRITICAL, on the line of the RSA
  statement (line 1); and algorithm AES, bits "Unknown", risk UNKNOWN, on the line of the
  AES statement (line 2). This holds for every file path and every parser that gives the
  tree of this source.
\<close>

theorem scan_file_end_to_end:
  assumes "PQCScanner_init = Inr sc"
    and "parse end_to_end_source = end_to_end_tree"
  shows "scan_file sc parse normpath filepath (Inr end_to_end_source) =
     Inr [\<lparr>f_file = normpath filepath, f_line = 1, f_algo = ''RSA'',
            f_method = ''generate'', f_bits = Bits 1024, f_risk = CRITICAL,
            f_context = ''RSA.generate(1024)''\<rparr>,
          \<lparr>f_file = normpath filepath, f_line = 2, f_algo = ''AES'',
            f_method = ''new'', f_bits = Unknown, f_risk = UNKNOWN,
            f_context = ''AES.new('' @ key_literal_text @ '', MODE)''\<rparr>]"
proof -
  from assms(1) have "sc = new_scanner TARGETS"
    by (simp add: PQCScanner_init_value)
  with assms(2) show ?thesis
    by (simp add: scan_file_def find_calls_end_to_end)
qed

theorem scan_file_end_to_end_witness:
  "PQCScanner_init = Inr (new_scanner TARGETS) \<and>
   parser_of [(end_to_end_source, end_to_end_tree)] end_to_end_source = end_to_end_tree \<and>
   scan_file (new_scanner TARGETS) (parser_of [(end_to_end_source, end_to_end_tree)])
     id ''vulnerable.py'' (Inr end_to_end_source) =
   Inr [\<lparr>f_file = ''vulnerable.py'', f_line = 1, f_algo = ''RSA'', f_method = ''generate'',
          f_bits = Bits 1024, f_risk = CRITICAL, f_context = ''RSA.generate(1024)''\<rparr>,
        \<lparr>f_file = ''vulnerable.py'', f_line = 2, f_algo = ''AES'', f_method = ''new'',
          f_bits = Unknown, f_risk = UNKNOWN,
          f_context = ''AES.new('' @ key_literal_text @ '', MODE)''\<rparr>]"
proof -
  have h1: "PQCScanner_init = Inr (new_scanner TARGETS)"
    by (rule PQCScanner_init_value)
  have h2: "parser_of [(end_to_end_source, end_to_end_tree)] end_to_end_source =
      end_to_end_tree"
    by (simp add: parser_of_def)
  show ?thesis
    using h1 h2
      scan_file_end_to_end
        [of "new_scanner TARGETS" "parser_of [(end_to_end_source, end_to_end_tree)]"
            id "''vulnerable.py''"]
    by simp
qed

section \<open>The alias index\<close>

lemma add_aliases_lookup:
  "add_aliases c as m a = (if a \<in> set as then Some c else m a)"
  by (induction as arbitrary: m) auto

lemma build_alias_map_append:
  "build_alias_map (xs @ ys) m = build_alias_map ys (build_alias_map xs m)"
  by (induction xs arbitrary: m) auto

lemma build_alias_map_unlisted:
  "\<forall>(c, cfg) \<in> set cat. a \<notin> set (aliases cfg) \<Longrightarrow> build_alias_map cat m a = m a"
  by (induction cat arbitrary: m) (auto simp: add_aliases_lookup)

text \<open>
  C3, as stated, fails: with the alias \<open>Crypto\<close> listed by both RSA and DSA,
  initialization returns a scanner (no error), and the alias resolves to DSA.
\<close>

theorem duplicate_alias_is_not_rejected:
  "PQCScanner_init_with duplicate_alias_catalog = Inr (new_scanner duplicate_alias_catalog) \<and>
   resolve_alias (new_scanner duplicate_alias_catalog) ''Crypto'' = ''DSA''"
  by (simp add: PQCScanner_init_with_def new_scanner_def resolve_alias_def
        duplicate_alias_catalog_def)

text \<open>
  C3 (amended): initialization succeeds on every catalog, also on one that lists the same
  alias in two entries; no error is raised, and an alias resolves to the canonical name of
  the last entry, in catalog order, that lists it.
\<close>

theorem alias_index_last_entry_wins:
  "(\<exists>sc. PQCScanner_init_with cat = Inr sc) \<and>
   (cat = before @ (c, cfg) # after \<and> a \<in> set (aliases cfg) \<and>
      (\<forall>(c', cfg') \<in> set after. a \<notin> set (aliases cfg')) \<longrightarrow>
      PQCScanner_init_with cat = Inr (new_scanner cat) \<and>
      resolve_alias (new_scanner cat) a = c)"
  by (auto simp: PQCScanner_init_with_def new_scanner_def resolve_alias_def
        build_alias_map_append build_alias_map_unlisted add_aliases_lookup)

theorem alias_index_last_entry_wins_witness:
  "''PyRSA'' \<in> set [''RSA'', ''PyRSA''] \<and>
   resolve_alias
     (new_scanner
        [(''DSA'', \<lparr>methods = [''generate''], arg_keys = [''bits''], aliases = [''PyRSA'']\<rparr>),
         (''RSA'', \<lparr>methods = [''generate''], arg_keys = [''bits''],
                    aliases = [''RSA'', ''PyRSA'']\<rparr>),
         (''AES'', \<lparr>methods = [''new''], arg_keys = [''key''], aliases = [''AES'']\<rparr>)])
     ''PyRSA'' = ''RSA''"
  using alias_index_last_entry_wins
    [of "[(''DSA'', \<lparr>methods = [''generate''], arg_keys = [''bits''], aliases = [''PyRSA'']\<rparr>),
          (''RSA'', \<lparr>methods = [''generate''], arg_keys = [''bits''],
                     aliases = [''RSA'', ''PyRSA'']\<rparr>),
          (''AES'', \<lparr>methods = [''new''], arg_keys = [''key''], aliases = [''AES'']\<rparr>)]"
        "[(''DSA'', \<lparr>methods = [''generate''], arg_keys = [''bits''], aliases = [''PyRSA'']\<rparr>)]"
        "''RSA''"
        "\<lparr>methods = [''generate''], arg_keys = [''bits''], aliases = [''RSA'', ''PyRSA'']\<rparr>"
        "[(''AES'', \<lparr>methods = [''new''], arg_keys = [''key''], aliases = [''AES'']\<rparr>)]"
        "''PyRSA''"]
  by simp

section \<open>Exceptions\<close>

lemma scan_file_unreadable:
  "scan_file sc parse normpath filepath (Inl e) = Inr []"
  by (simp add: scan_file_def)

text \<open>
  C4: \<open>scan_file\<close> is claimed never to raise, for any integer-literal argument form. On a
  readable file holding \<open>key = RSA.generate(0x800)\<close> the conversion \<open>int("0x800")\<close>
  raises ValueError inside the key-size extraction; nothing catches it, and \<open>scan_file\<close>
  raises.
\<close>

theorem scan_file_raises_on_hex_literal:
  "scan_file (new_scanner TARGETS) (parser_of [(hex_literal_source, hex_literal_tree)]) id
     ''keys.py'' (Inr hex_literal_source) = Inl ValueError"
  by (simp add: scan_file_def parser_of_def find_calls_hex_literal)

section \<open>The rules of the key-size extraction\<close>

text \<open>
  C7: a positional integer literal is claimed to be accepted as the key size exactly when
  its value is at least 128 and is not 65537. For \<open>RSA.generate(2048)\<close> the extraction
  returns 2048; for \<open>RSA.generate(0x800)\<close>, the same value written in hexadecimal, the
  conversion \<open>int("0x800")\<close> raises ValueError and no key size is returned.
\<close>

theorem positional_hex_literal_not_accepted:
  "extract_key_size (Some decimal_positional_arguments) [''bits'', ''size'', ''key_size''] =
     Inr 2048 \<and>
   extract_key_size (Some hex_positional_arguments) [''bits'', ''size'', ''key_size''] =
     Inl ValueError"
  by (simp add: decimal_positional_arguments_def hex_positional_arguments_def tree_defs
        extract_key_size_def py_int_examples)

text \<open>
  C8: an integer literal given to a recognized keyword is claimed to be taken as the key
  size as it is, and a byte-prefixed literal to count (length of the text minus 3) times
  8. For \<open>bits=2048\<close> the extraction returns 2048, but for \<open>bits=0x800\<close> the conversion
  \<open>int("0x800")\<close> raises ValueError; for the 16-byte literal \<open>b'Sixteen byte key'\<close> it
  returns 128, but for \<open>B'Sixteen byte key'\<close> it returns 136, because only a lower-case
  \<open>b\<close> is recognized as a prefix.
\<close>

theorem keyword_hex_literal_not_taken:
  "extract_key_size (Some decimal_keyword_arguments) [''bits'', ''size'', ''key_size''] =
     Inr 2048 \<and>
   extract_key_size (Some hex_keyword_arguments) [''bits'', ''size'', ''key_size''] =
     Inl ValueError \<and>
   extract_key_size (Some lower_prefix_key_arguments) [''key'', ''bits'', ''key_size''] =
     Inr 128 \<and>
   extract_key_size (Some upper_prefix_key_arguments) [''key'', ''bits'', ''key_size''] =
     Inr 136"
  by (simp add: decimal_keyword_arguments_def hex_keyword_arguments_def
        lower_prefix_key_arguments_def upper_prefix_key_arguments_def tree_defs
        extract_key_size_def child_by_field_name_def py_int_examples string_key_size_def
        startswith_b_def)

text \<open>
  C10: a call with no positional integer of value at least 128 other than 65537 and no
  recognized keyword with a literal value is claimed to give key size 0. For
  \<open>AES.new(b'32_byte_key_..............32', 16)\<close> the extraction returns 0: the byte
  literal is passed over and 16 is below 128. For
  \<open>AES.new(b'32_byte_key_..............32', 0x10)\<close>, the same call with 16 written in
  hexadecimal, the conversion \<open>int("0x10")\<close> raises ValueError.
\<close>

theorem positional_string_then_hex_raises:
  "extract_key_size (Some string_then_decimal_arguments) [''key'', ''bits'', ''key_size''] =
     Inr 0 \<and>
   extract_key_size (Some string_then_hex_arguments) [''key'', ''bits'', ''key_size''] =
     Inl ValueError"
  by (simp add: string_then_decimal_arguments_def string_then_hex_arguments_def tree_defs
        extract_key_size_def py_int_examples)

section \<open>The findings of a scan\<close>

lemma match_call_bits:
  "match_call sc n = Inr found \<Longrightarrow> fd \<in> set found \<Longrightarrow>
     (f_bits fd = Unknown \<or> (\<exists>k. k \<noteq> 0 \<and> f_bits fd = Bits k)) \<and>
     (f_bits fd = Unknown \<longrightarrow> f_risk fd = UNKNOWN)"
  by (auto simp: match_call_def Let_def calculate_risk_def
        split: if_splits option.splits sum.splits)

lemma find_calls_invariant:
  "find_calls sc n results = Inr out \<Longrightarrow> \<forall>fd \<in> set results. P fd \<Longrightarrow>
     (\<And>m found fd. match_call sc m = Inr found \<Longrightarrow> fd \<in> set found \<Longrightarrow> P fd) \<Longrightarrow>
     \<forall>fd \<in> set out. P fd"
  "find_calls_children sc cs results = Inr out \<Longrightarrow> \<forall>fd \<in> set results. P fd \<Longrightarrow>
     (\<And>m found fd. match_call sc m = Inr found \<Longrightarrow> fd \<in> set found \<Longrightarrow> P fd) \<Longrightarrow>
     \<forall>fd \<in> set out. P fd"
proof (induction sc n results and sc cs results arbitrary: out and out
    rule: find_calls_find_calls_children.induct)
  case (1 sc t x r f cs results)
  then show ?case by (fastforce split: sum.splits)
next
  case (2 sc results)
  then show ?case by simp
next
  case (3 sc child rest results)
  then show ?case by (fastforce split: sum.splits)
qed

text \<open>
  The converse of the second part does not hold: \<open>AES.new(1000)\<close> gives the numeric bits
  1000 with risk UNKNOWN.
\<close>

lemma find_calls_numeric_bits_unknown_risk:
  "find_calls (new_scanner TARGETS)
     (method_call ''AES'' ''new'' ''(1000)'' [leaf ''integer'' ''1000'' r None] r None) [] =
     Inr [\<lparr>f_file = [], f_line = r + 1, f_algo = ''AES'', f_method = ''new'',
            f_bits = Bits 1000, f_risk = UNKNOWN, f_context = ''AES.new(1000)''\<rparr>]"
  by (simp add: tree_defs walk_defs default_alias_map default_targets int_defs
        calculate_risk_def upper_AES)

text \<open>
  C9: every finding that \<open>scan_file\<close> returns has as bits either the string "Unknown" or
  an integer other than 0, and when bits is "Unknown" the risk is UNKNOWN.
\<close>

theorem scan_file_bits_invariant:
  assumes "scan_file sc parse normpath filepath src = Inr fs"
    and "fd \<in> set fs"
  shows "(f_bits fd = Unknown \<or> (\<exists>k. k \<noteq> 0 \<and> f_bits fd = Bits k)) \<and>
         f_bits fd \<noteq> Bits 0 \<and>
         (f_bits fd = Unknown \<longrightarrow> f_risk fd = UNKNOWN)"
proof (cases src)
  case (Inl e)
  with assms show ?thesis by (simp add: scan_file_def)
next
  case (Inr source_code)
  with assms(1) obtain results where
    walk: "find_calls sc (parse source_code) [] = Inr results" and
    fs: "fs = map (\<lambda>result. result\<lparr>f_file := normpath filepath\<rparr>) results"
    by (auto simp: scan_file_def split: sum.splits)
  from assms(2) fs obtain g where g: "g \<in> set results" "fd = g\<lparr>f_file := normpath filepath\<rparr>"
    by auto
  have "\<forall>h \<in> set results.
      (f_bits h = Unknown \<or> (\<exists>k. k \<noteq> 0 \<and> f_bits h = Bits k)) \<and>
      (f_bits h = Unknown \<longrightarrow> f_risk h = UNKNOWN)"
    by (rule find_calls_invariant(1) [OF walk]) (simp, rule match_call_bits)
  with g show ?thesis by auto
qed

theorem scan_file_bits_invariant_witness:
  "scan_file (new_scanner TARGETS) (parser_of [(''RSA.generate(65537)'', exponent_only_call 0)])
     id ''e.py'' (Inr ''RSA.generate(65537)'') =
     Inr [\<lparr>f_file = ''e.py'', f_line = 1, f_algo = ''RSA'', f_method = ''generate'',
            f_bits = Unknown, f_risk = UNKNOWN, f_context = ''RSA.generate(65537)''\<rparr>] \<and>
   f_bits \<lparr>f_file = ''e.py'', f_line = 1, f_algo = ''RSA'', f_method = ''generate'',
           f_bits = Unknown, f_risk = UNKNOWN, f_context = ''RSA.generate(65537)''\<rparr> \<noteq> Bits 0 \<and>
   f_risk \<lparr>f_file = ''e.py'', f_line = 1, f_algo = ''RSA'', f_method = ''generate'',
           f_bits = Unknown, f_risk = UNKNOWN, f_context = ''RSA.generate(65537)''\<rparr> = UNKNOWN"
proof -
  have run: "scan_file (new_scanner TARGETS)
      (parser_of [(''RSA.generate(65537)'', exponent_only_call 0)]) id ''e.py''
      (Inr ''RSA.generate(65537)'') =
      Inr [\<lparr>f_file = ''e.py'', f_line = 1, f_algo = ''RSA'', f_method = ''generate'',
             f_bits = Unknown, f_risk = UNKNOWN, f_context = ''RSA.generate(65537)''\<rparr>]"
    by (simp add: scan_file_def parser_of_def find_calls_exponent_only)
  have mem: "\<lparr>f_file = ''e.py'', f_line = 1, f_algo = ''RSA'', f_method = ''generate'',
      f_bits = Unknown, f_risk = UNKNOWN, f_context = ''RSA.generate(65537)''\<rparr> \<in>
      set [\<lparr>f_file = ''e.py'', f_line = 1, f_algo = ''RSA'', f_method = ''generate'',
            f_bits = Unknown, f_risk = UNKNOWN, f_context = ''RSA.generate(65537)''\<rparr>]"
    by simp
  show ?thesis
    using run scan_file_bits_invariant [OF run mem] by simp
qed

section \<open>The asset inventory\<close>

lemma append_assets_eq: "append_assets fs acc = acc @ map asset_of fs"
  by (induction fs arbitrary: acc) auto

lemma cryptoAssets_generate_cbom:
  "generate_cbom fs w = Inr c \<Longrightarrow> cryptoAssets c = map asset_of fs"
  by (auto simp: generate_cbom_def Let_def append_assets_eq split: option.splits sum.splits)

lemma generate_cbom_two_rsa: "generate_cbom two_rsa_findings None = Inr two_rsa_cbom"
  by (simp add: generate_cbom_def two_rsa_findings_def two_rsa_cbom_def asset_of_def
        str_int_def nat_digits.simps digit_char_def Let_def)

subsection \<open>Rendering an integer loses nothing\<close>

lemma below_ten: "d < 10 \<Longrightarrow> d \<in> {0, 1, 2, 3, 4, 5, 6, 7, 8, 9 :: nat}"
  by auto

lemma digit_value_digit_char: "d < 10 \<Longrightarrow> digit_value (digit_char d) = d"
  using below_ten [of d] by (auto simp: digit_value_def digit_char_def)

lemma is_digit_digit_char: "d < 10 \<Longrightarrow> is_digit (digit_char d)"
  using below_ten [of d] by (auto simp: is_digit_def digit_char_def)

lemma nat_digits_value:
  "foldl (\<lambda>a c. a * 10 + digit_value c) 0 (nat_digits n) = n"
proof (induction n rule: nat_digits.induct)
  case (1 n)
  show ?case
  proof (cases "n < 10")
    case True
    then show ?thesis
      by (simp add: nat_digits.simps [of n] digit_value_digit_char)
  next
    case False
    with 1 show ?thesis
      by (simp add: nat_digits.simps [of n] digit_value_digit_char)
  qed
qed

lemma nat_digits_inj: "nat_digits m = nat_digits n \<Longrightarrow> m = n"
  by (metis nat_digits_value)

lemma nat_digits_first: "\<exists>c cs. nat_digits n = c # cs \<and> is_digit c"
proof (induction n rule: nat_digits.induct)
  case (1 n)
  show ?case
  proof (cases "n < 10")
    case True
    then show ?thesis
      by (simp add: nat_digits.simps [of n] is_digit_digit_char)
  next
    case False
    with 1 show ?thesis
      by (auto simp: nat_digits.simps [of n])
  qed
qed

lemma str_int_inj: "str_int i = str_int j \<Longrightarrow> i = j"
proof -
  assume eq: "str_int i = str_int j"
  have not_minus: "nat_digits n \<noteq> CHR ''-'' # cs" for n cs
    using nat_digits_first [of n] by (auto simp: is_digit_def)
  show ?thesis
  proof (cases "i < 0")
    case True
    show ?thesis
    proof (cases "j < 0")
      case True
      with \<open>i < 0\<close> eq have "nat (- i) = nat (- j)"
        by (simp add: str_int_def nat_digits_inj)
      with True \<open>i < 0\<close> show ?thesis by simp
    next
      case False
      with \<open>i < 0\<close> eq not_minus show ?thesis
        by (simp add: str_int_def) metis
    qed
  next
    case False
    show ?thesis
    proof (cases "j < 0")
      case True
      with \<open>\<not> i < 0\<close> eq not_minus show ?thesis
        by (simp add: str_int_def)
    next
      case False
      with \<open>\<not> i < 0\<close> eq have "nat i = nat j"
        by (simp add: str_int_def nat_digits_inj)
      with False \<open>\<not> i < 0\<close> show ?thesis by simp
    qed
  qed
qed

lemma str_int_not_Unknown: "str_int i \<noteq> ''Unknown''"
proof -
  have minus: "nat_digits n \<noteq> ''Unknown''" for n
    using nat_digits_first [of n] by (auto simp: is_digit_def)
  then show ?thesis by (simp add: str_int_def)
qed

lemma str_bits_inj: "str_bits a = str_bits b \<Longrightarrow> a = b"
  by (cases a; cases b)
    (auto dest: str_int_inj simp: str_int_not_Unknown str_int_not_Unknown [symmetric])

lemma risk_text_inj: "risk_text a = risk_text b \<Longrightarrow> a = b"
  by (cases a; cases b) simp_all

lemma asset_of_inj: "asset_of a = asset_of b \<Longrightarrow> a = b"
  by (cases a; cases b) (auto simp: asset_of_def dest: str_bits_inj risk_text_inj)

lemma map_asset_of_inj: "map asset_of fs = map asset_of gs \<Longrightarrow> fs = gs"
  using asset_of_inj by (metis inj_onI inj_map_eq_map)

text \<open>
  C2, as stated, fails: two findings of the algorithm RSA give two records named RSA, not
  one record with two occurrences.
\<close>

theorem cbom_same_algorithm_two_records:
  "map asset_name (cryptoAssets (projr (generate_cbom two_rsa_findings None))) =
     [''RSA'', ''RSA''] \<and>
   map occurrences (cryptoAssets (projr (generate_cbom two_rsa_findings None))) =
     [[\<lparr>location = ''a.py'', occ_line = 1, occ_context = ''RSA.generate(1024)''\<rparr>],
      [\<lparr>location = ''a.py'', occ_line = 2, occ_context = ''RSA.generate(4096)''\<rparr>]]"
  by (simp add: generate_cbom_two_rsa two_rsa_cbom_def)

text \<open>
  C2 (amended): for every finding list given to \<open>generate_cbom\<close>, the export holds one
  \<open>cryptoAssets\<close> record per finding, in the order of the list: the record is named after
  the finding's algorithm and carries exactly one occurrence (location, line, context of
  that finding) and its key size as a string, its method and its risk; findings that
  share an algorithm are not merged. The export is a lossless re-projection of the flat
  list: no other finding list gives the same export.
\<close>

theorem generate_cbom_one_record_per_finding:
  "generate_cbom fs w = Inr c \<longrightarrow>
     length (cryptoAssets c) = length fs \<and>
     (\<forall>i < length fs.
        asset_name (cryptoAssets c ! i) = f_algo (fs ! i) \<and>
        occurrences (cryptoAssets c ! i) =
          [\<lparr>location = f_file (fs ! i), occ_line = f_line (fs ! i),
            occ_context = f_context (fs ! i)\<rparr>] \<and>
        properties (cryptoAssets c ! i) =
          [\<lparr>prop_name = ''keySize'', prop_value = str_bits (f_bits (fs ! i))\<rparr>,
           \<lparr>prop_name = ''method'', prop_value = f_method (fs ! i)\<rparr>,
           \<lparr>prop_name = ''quantumRisk'', prop_value = risk_text (f_risk (fs ! i))\<rparr>]) \<and>
     (\<forall>gs v. generate_cbom gs v = Inr c \<longrightarrow> gs = fs)"
proof
  assume a: "generate_cbom fs w = Inr c"
  then have assets: "cryptoAssets c = map asset_of fs"
    by (rule cryptoAssets_generate_cbom)
  have inj: "\<forall>gs v. generate_cbom gs v = Inr c \<longrightarrow> gs = fs"
  proof (intro allI impI)
    fix gs v
    assume "generate_cbom gs v = Inr c"
    then have "cryptoAssets c = map asset_of gs"
      by (rule cryptoAssets_generate_cbom)
    with assets show "gs = fs" by (simp add: map_asset_of_inj)
  qed
  from assets inj show "length (cryptoAssets c) = length fs \<and>
     (\<forall>i < length fs.
        asset_name (cryptoAssets c ! i) = f_algo (fs ! i) \<and>
        occurrences (cryptoAssets c ! i) =
          [\<lparr>location = f_file (fs ! i), occ_line = f_line (fs ! i),
            occ_context = f_context (fs ! i)\<rparr>] \<and>
        properties (cryptoAssets c ! i) =
          [\<lparr>prop_name = ''keySize'', prop_value = str_bits (f_bits (fs ! i))\<rparr>,
           \<lparr>prop_name = ''method'', prop_value = f_method (fs ! i)\<rparr>,
           \<lparr>prop_name = ''quantumRisk'', prop_value = risk_text (f_risk (fs ! i))\<rparr>]) \<and>
     (\<forall>gs v. generate_cbom gs v = Inr c \<longrightarrow> gs = fs)"
    by (simp add: asset_of_def)
qed

theorem generate_cbom_one_record_per_finding_witness:
  "generate_cbom two_rsa_findings None = Inr two_rsa_cbom \<and>
   length (cryptoAssets two_rsa_cbom) = length two_rsa_findings \<and>
   asset_name (cryptoAssets two_rsa_cbom ! 1) = f_algo (two_rsa_findings ! 1) \<and>
   generate_cbom two_rsa_findings (Some (Inr ())) = Inr two_rsa_cbom"
proof -
  have run: "generate_cbom two_rsa_findings None = Inr two_rsa_cbom"
    by (rule generate_cbom_two_rsa)
  have again: "generate_cbom two_rsa_findings (Some (Inr ())) = Inr two_rsa_cbom"
    using run by (simp add: generate_cbom_def Let_def)
  have one: "(1::nat) < length two_rsa_findings"
    by (simp add: two_rsa_findings_def)
  from generate_cbom_one_record_per_finding [of two_rsa_findings None two_rsa_cbom] run
  have all: "length (cryptoAssets two_rsa_cbom) = length two_rsa_findings \<and>
     (\<forall>i < length two_rsa_findings.
        asset_name (cryptoAssets two_rsa_cbom ! i) = f_algo (two_rsa_findings ! i) \<and>
        occurrences (cryptoAssets two_rsa_cbom ! i) =
          [\<lparr>location = f_file (two_rsa_findings ! i), occ_line = f_line (two_rsa_findings ! i),
            occ_context = f_context (two_rsa_findings ! i)\<rparr>] \<and>
        properties (cryptoAssets two_rsa_cbom ! i) =
          [\<lparr>prop_name = ''keySize'', prop_value = str_bits (f_bits (two_rsa_findings ! i))\<rparr>,
           \<lparr>prop_name = ''method'', prop_value = f_method (two_rsa_findings ! i)\<rparr>,
           \<lparr>prop_name = ''quantumRisk'',
            prop_value = risk_text (f_risk (two_rsa_findings ! i))\<rparr>]) \<and>
     (\<forall>gs v. generate_cbom gs v = Inr two_rsa_cbom \<longrightarrow> gs = two_rsa_findings)"
    by (rule mp)
  with one have "asset_name (cryptoAssets two_rsa_cbom ! 1) = f_algo (two_rsa_findings ! 1)"
    by blast
  with all run again show ?thesis by blast
qed

end
